theory Spec2Isabelle
  imports Main "HOL-Library.Word" "HOL-Library.Signed_Division"
begin

unbundle bit_operations_syntax

section \<open>Value decoding of the debug server (server/value.go)\<close>

text \<open>
  The development embeds \<^verbatim>\<open>func (s *Server) value(t dwarf.Type, addr uint64)\<close>.
  Go's \<^verbatim>\<open>int64\<close>, \<^verbatim>\<open>uint64\<close> and \<^verbatim>\<open>uintptr\<close> are \<open>64 word\<close> (a conversion between
  them keeps the bits; signed readings use \<open>sint\<close>), \<^verbatim>\<open>dwarf.Offset\<close> is \<open>32 word\<close>,
  a byte is \<open>8 word\<close>. Every \<^verbatim>\<open>fmt.Errorf\<close> of the source is a constructor of
  \<open>error\<close>; a Go result \<^verbatim>\<open>(debug.Value, error)\<close> is \<open>error + Value\<close>. Reading target
  memory is an effect: every function that may read threads the log of reads performed so far.
\<close>

subsection \<open>Type descriptors (package dwarf)\<close>

type_synonym byte = "8 word"
type_synonym int64 = "64 word"
type_synonym uint64 = "64 word"

record CommonType =
  ByteSize :: int64
  Name :: string
  Offset :: "32 word"

text \<open>
  One constructor per case label of the type switch in \<^verbatim>\<open>value\<close>. Embedded structs are
  flattened into the constructor arguments: \<open>SliceType\<close> and \<open>StringType\<close> embed a
  \<open>StructType\<close>; \<open>MapType\<close>, \<open>ChanType\<close> and \<open>InterfaceType\<close> embed a \<open>TypedefType\<close>
  (its \<open>CommonType\<close> and its \<open>Type\<close>). \<open>OtherType\<close> stands for every implementation of
  \<^verbatim>\<open>dwarf.Type\<close> that the switch has no case for; it carries the name that \<^verbatim>\<open>%T\<close> prints.
\<close>

datatype Type =
    CharType CommonType
  | IntType CommonType
  | UcharType CommonType
  | UintType CommonType
  | AddrType CommonType
  | BoolType CommonType
  | FloatType CommonType
  | ComplexType CommonType
  | PtrType CommonType Type
  | SliceType StructT Type
  | ArrayType CommonType Type int64 int64
  | StructType StructT
  | TypedefType CommonType Type
  | MapType CommonType Type Type Type
  | StringType StructT
  | ChanType CommonType Type Type
  | FuncType CommonType
  | InterfaceType CommonType Type
  | OtherType string CommonType
and StructT = StructT CommonType "StructField list"
and StructField = StructField string Type int64

text \<open>Selectors named after the Go fields.\<close>

fun Field :: "StructT \<Rightarrow> StructField list" where
  "Field (StructT c fs) = fs"

fun Field_Name :: "StructField \<Rightarrow> string" where
  "Field_Name (StructField n t off) = n"

fun Field_Type :: "StructField \<Rightarrow> Type" where
  "Field_Type (StructField n t off) = t"

fun Field_ByteOffset :: "StructField \<Rightarrow> int64" where
  "Field_ByteOffset (StructField n t off) = off"

text \<open>\<^verbatim>\<open>t.Common()\<close>.\<close>

fun Common :: "Type \<Rightarrow> CommonType" where
  "Common (CharType c) = c"
| "Common (IntType c) = c"
| "Common (UcharType c) = c"
| "Common (UintType c) = c"
| "Common (AddrType c) = c"
| "Common (BoolType c) = c"
| "Common (FloatType c) = c"
| "Common (ComplexType c) = c"
| "Common (PtrType c t) = c"
| "Common (SliceType (StructT c fs) e) = c"
| "Common (ArrayType c t stride n) = c"
| "Common (StructType (StructT c fs)) = c"
| "Common (TypedefType c t) = c"
| "Common (MapType c t k e) = c"
| "Common (StringType (StructT c fs)) = c"
| "Common (ChanType c t e) = c"
| "Common (FuncType c) = c"
| "Common (InterfaceType c t) = c"
| "Common (OtherType n c) = c"

subsection \<open>Values (package debug)\<close>

record Pointer =
  Pointer_TypeID :: uint64
  Pointer_Address :: uint64

record Array =
  Array_ElementTypeID :: uint64
  Array_Address :: uint64
  Array_Length :: uint64
  Array_StrideBits :: uint64

record Slice =
  Slice_Array :: Array
  Slice_Capacity :: uint64

record Var =
  Var_TypeID :: uint64
  Var_Address :: uint64

record ValueField =
  ValueField_Name :: string
  ValueField_Var :: Var

record Map =
  Map_TypeID :: uint64
  Map_Address :: uint64
  Map_Length :: uint64

record String =
  String_Length :: uint64
  String_String :: "byte list"

record Channel =
  Channel_ElementTypeID :: uint64
  Channel_Address :: uint64
  Channel_Buffer :: uint64
  Channel_Length :: uint64
  Channel_Capacity :: uint64
  Channel_Stride :: uint64
  Channel_BufferStart :: uint64

text \<open>
  \<^verbatim>\<open>debug.Value\<close> is \<^verbatim>\<open>interface{}\<close>; the dynamic types that \<^verbatim>\<open>value\<close> returns are the
  constructors. Floating-point payloads are kept as their IEEE bit patterns.
\<close>

datatype Value =
    VInt8 "8 word"
  | VInt16 "16 word"
  | VInt32 "32 word"
  | VInt64 "64 word"
  | VUint8 "8 word"
  | VUint16 "16 word"
  | VUint32 "32 word"
  | VUint64 "64 word"
  | VBool bool
  | VFloat32 "32 word"
  | VFloat64 "64 word"
  | VComplex64 "32 word" "32 word"
  | VComplex128 "64 word" "64 word"
  | VPointer Pointer
  | VSlice Slice
  | VArray Array
  | VStruct "ValueField list"
  | VMap Map
  | VString String
  | VChannel Channel
  | VFunc uint64
  | VInterface

subsection \<open>Errors\<close>

text \<open>
  \<open>Reading what e\<close> is \<^verbatim>\<open>fmt.Errorf("reading <what>: %s", err)\<close>. \<open>InvalidSize\<close> is
  \<^verbatim>\<open>"invalid size: %d"\<close> of \<^verbatim>\<open>readBasic\<close>; \<open>InvalidTypeSize what\<close> is
  \<^verbatim>\<open>"invalid <what> size: %d"\<close>; \<open>InconsistentSlice capacity length\<close> is
  \<^verbatim>\<open>"slice's capacity %d is less than its length %d"\<close>; \<open>Alignment\<close> is
  \<^verbatim>\<open>"array is not byte-aligned"\<close>; \<open>ChanNotPointer\<close> and \<open>ChanNotPointerToStruct\<close> are the
  two \<^verbatim>\<open>"reading channel: type is not a pointer..."\<close> errors; \<open>UnsupportedType\<close> is
  \<^verbatim>\<open>"Unsupported type %T"\<close>. \<open>ReadFailure\<close>, \<open>FieldNotFound\<close> and \<open>UnsupportedFieldType\<close>
  are raised by the helpers below.
\<close>

datatype error =
    InvalidSize int64
  | InvalidTypeSize string int64
  | ReadFailure uint64 nat
  | FieldNotFound string
  | UnsupportedFieldType string
  | Reading string error
  | InconsistentSlice uint64 uint64
  | Alignment
  | ChanNotPointer
  | ChanNotPointerToStruct
  | UnsupportedType string

subsection \<open>Architecture, memory and the server\<close>

datatype ByteOrder = LittleEndian | BigEndian

record Architecture =
  Arch_ByteOrder :: ByteOrder
  PointerSize :: int64

text \<open>A read of the target's memory: the address and the number of bytes asked for.\<close>

type_synonym reads = "(uint64 \<times> nat) list"

text \<open>
  The server: its architecture, the target's memory as seen through the Memory Access Port
  (\<open>None\<close> at an address that cannot be read), and the map-length algorithm
  \<^verbatim>\<open>peekMapLength\<close>, which the decoder takes as given.
\<close>

record Server =
  arch :: Architecture
  mem :: "uint64 \<Rightarrow> byte option"
  peekMapLength :: "Type \<Rightarrow> uint64 \<Rightarrow> reads \<Rightarrow> (error + uint64) \<times> reads"

text \<open>
  The Architecture Decoder (\<^verbatim>\<open>s.arch.UintN\<close>, \<^verbatim>\<open>IntN\<close>,
  \<^verbatim>\<open>Uintptr\<close>, \<^verbatim>\<open>Float32\<close>, \<^verbatim>\<open>Float64\<close>, \<^verbatim>\<open>Complex64\<close>, \<^verbatim>\<open>Complex128\<close>) is not
  among the sources; it is modelled from the specification. It is a pure conversion of a byte buffer into a number in the session's one
  byte order: an N-byte unsigned integer, an N-byte two's-complement signed integer
  (sign-extended to 64 bits), a pointer-width unsigned address, and floats and complex numbers
  (a pair of floats of half the width), here as bit patterns.
\<close>

text \<open>
  Modelled from the spec: one step of the Architecture Decoder's byte-to-number conversion
  (absent from the sources): the number so far moves up by one byte and the next byte comes in
  below it.
\<close>

definition be_step :: "uint64 \<Rightarrow> byte \<Rightarrow> uint64" where
  "be_step u c = push_bit 8 u OR ucast c"

text \<open>
  Modelled from the spec: the session's one fixed byte order (the Architecture Decoder is
  absent from the sources); the buffer with its most significant byte first.
\<close>

definition ordered :: "Architecture \<Rightarrow> byte list \<Rightarrow> byte list" where
  "ordered a buf = (case Arch_ByteOrder a of LittleEndian \<Rightarrow> rev buf | BigEndian \<Rightarrow> buf)"

text \<open>
  Modelled from the spec: \<^verbatim>\<open>arch.UintN\<close> (absent from the sources), the
  Architecture Decoder's N-byte unsigned integer.
\<close>

definition UintN :: "Architecture \<Rightarrow> byte list \<Rightarrow> uint64" where
  "UintN a buf = foldl be_step 0 (ordered a buf)"

text \<open>
  Modelled from the spec: \<^verbatim>\<open>arch.IntN\<close> (absent from the sources), the
  Architecture Decoder's N-byte two's-complement signed integer: the most significant byte is
  sign-extended.
\<close>

definition IntN :: "Architecture \<Rightarrow> byte list \<Rightarrow> int64" where
  "IntN a buf =
     (case ordered a buf of
        [] \<Rightarrow> 0
      | c # cs \<Rightarrow> foldl be_step (scast c) cs)"

text \<open>
  Modelled from the spec: \<^verbatim>\<open>arch.Uintptr\<close> (absent from the sources), a
  pointer-width unsigned value decoded as an address.
\<close>

definition Uintptr :: "Architecture \<Rightarrow> byte list \<Rightarrow> uint64" where
  "Uintptr a buf = UintN a buf"

text \<open>
  Modelled from the spec: \<^verbatim>\<open>arch.Float32\<close> (absent from the sources), a
  32-bit IEEE float, kept as its bit pattern.
\<close>

definition Float32 :: "Architecture \<Rightarrow> byte list \<Rightarrow> 32 word" where
  "Float32 a buf = ucast (UintN a buf)"

text \<open>
  Modelled from the spec: \<^verbatim>\<open>arch.Float64\<close> (absent from the sources), a
  64-bit IEEE float, kept as its bit pattern.
\<close>

definition Float64 :: "Architecture \<Rightarrow> byte list \<Rightarrow> 64 word" where
  "Float64 a buf = UintN a buf"

text \<open>
  Modelled from the spec: \<^verbatim>\<open>arch.Complex64\<close> (absent from the sources),
  a pair of floats of half the total width.
\<close>

definition Complex64 :: "Architecture \<Rightarrow> byte list \<Rightarrow> Value" where
  "Complex64 a buf = VComplex64 (Float32 a (take 4 buf)) (Float32 a (drop 4 buf))"

text \<open>
  Modelled from the spec: \<^verbatim>\<open>arch.Complex128\<close> (absent from the
  sources), a pair of floats of half the total width.
\<close>

definition Complex128 :: "Architecture \<Rightarrow> byte list \<Rightarrow> Value" where
  "Complex128 a buf = VComplex128 (Float64 a (take 8 buf)) (Float64 a (drop 8 buf))"

text \<open>
  The Memory Access Port (\<^verbatim>\<open>s.peek\<close>, \<^verbatim>\<open>s.peekBytes\<close>,
  \<^verbatim>\<open>s.peekPtr\<close>) is not among the sources; it is modelled from the specification.
  \<open>peek(address, byteCount)\<close> gives the bytes at
  \<open>address\<close>, or fails when one of them cannot be read; \<open>peekPointer(address)\<close> reads a
  pointer-width value there and decodes it as an address. Each call of \<open>peek\<close> is one entry
  of the log.
\<close>

text \<open>
  Modelled from the spec: the bytes that the Memory Access Port (absent from the sources)
  finds at an address; \<open>None\<close> when one of them cannot be read. Addresses wrap
  around at 64 bits.
\<close>

fun load :: "(uint64 \<Rightarrow> byte option) \<Rightarrow> uint64 \<Rightarrow> nat \<Rightarrow> byte list option" where
  "load m a 0 = Some []"
| "load m a (Suc n) =
     (case m a of
        None \<Rightarrow> None
      | Some b \<Rightarrow> (case load m (a + 1) n of None \<Rightarrow> None | Some bs \<Rightarrow> Some (b # bs)))"

text \<open>
  Modelled from the spec: \<^verbatim>\<open>s.peek\<close> (absent from the sources), the
  port's \<open>peek(address, byteCount) -> bytes | error\<close>; the call is added to the
  log whether it fails or not.
\<close>

definition peek :: "Server \<Rightarrow> uint64 \<Rightarrow> nat \<Rightarrow> reads \<Rightarrow> (error + byte list) \<times> reads" where
  "peek s a n r =
     (case load (mem s) a n of
        None \<Rightarrow> (Inl (ReadFailure a n), r @ [(a, n)])
      | Some buf \<Rightarrow> (Inr buf, r @ [(a, n)]))"

text \<open>
  Modelled from the spec: \<^verbatim>\<open>s.peekBytes\<close> (absent from the sources),
  the same \<open>peek(address, byteCount)\<close> of the port, at a
  \<^verbatim>\<open>uint64\<close> address.
\<close>

definition peekBytes :: "Server \<Rightarrow> uint64 \<Rightarrow> nat \<Rightarrow> reads \<Rightarrow> (error + byte list) \<times> reads" where
  "peekBytes s a n r = peek s a n r"

text \<open>
  Modelled from the spec: \<^verbatim>\<open>s.peekPtr\<close> (absent from the sources), the
  port's \<open>peekPointer(address) -> address | error\<close>: one read of a pointer-width
  value, decoded as an address.
\<close>

definition peekPtr :: "Server \<Rightarrow> uint64 \<Rightarrow> reads \<Rightarrow> (error + uint64) \<times> reads" where
  "peekPtr s a r =
     (case peek s a (unat (PointerSize (arch s))) r of
        (Inl e, r') \<Rightarrow> (Inl e, r')
      | (Inr buf, r') \<Rightarrow> (Inr (Uintptr (arch s) buf), r'))"

text \<open>
  The Field Accessor (\<^verbatim>\<open>s.peekPtrStructField\<close>,
  \<^verbatim>\<open>s.peekUintOrIntStructField\<close>) is not among the sources; it is modelled from the
  specification. Both scan the struct's declared
  fields in order for an exact name match (\<open>FieldNotFound\<close> when there is none) and read at
  \<open>baseAddress + field.byteOffset\<close>. The pointer accessor reads a pointer-width value and
  fails with \<open>UnsupportedFieldType\<close> when the field's type is not a pointer or address kind.
  The integer accessor accepts a signed or an unsigned integer field, decodes it at the field's
  own width (a legal width, else \<open>InvalidSize\<close>) and widens it to 64 bits.
\<close>

text \<open>
  Modelled from the spec: the Field Accessor's lookup (absent from the sources), a linear scan
  of the struct's declared fields for an exact name match.
\<close>

definition getField :: "StructT \<Rightarrow> string \<Rightarrow> StructField option" where
  "getField t fieldName = find (\<lambda>f. Field_Name f = fieldName) (Field t)"

text \<open>
  Modelled from the spec: the legal byte sizes of an integer, \<open>{1,2,4,8}\<close> (used
  by the Field Accessor, which is absent from the sources).
\<close>

definition legalWidth :: "int64 \<Rightarrow> bool" where
  "legalWidth n \<longleftrightarrow> n = 1 \<or> n = 2 \<or> n = 4 \<or> n = 8"

text \<open>
  Modelled from the spec: \<^verbatim>\<open>s.peekPtrStructField\<close> (absent from the
  sources), the Field Accessor's \<open>readPointerField\<close>: \<open>FieldNotFound\<close>
  if no field matches, \<open>UnsupportedFieldType\<close> if the field's type is not a
  pointer or address kind, else a pointer-width read at \<open>baseAddress +
  field.byteOffset\<close>.
\<close>

definition peekPtrStructField ::
  "Server \<Rightarrow> StructT \<Rightarrow> uint64 \<Rightarrow> string \<Rightarrow> reads \<Rightarrow> (error + uint64) \<times> reads" where
  "peekPtrStructField s t addr fieldName r =
     (case getField t fieldName of
        None \<Rightarrow> (Inl (FieldNotFound fieldName), r)
      | Some f \<Rightarrow>
          (case Field_Type f of
             PtrType c p \<Rightarrow> peekPtr s (addr + Field_ByteOffset f) r
           | AddrType c \<Rightarrow> peekPtr s (addr + Field_ByteOffset f) r
           | _ \<Rightarrow> (Inl (UnsupportedFieldType fieldName), r)))"

text \<open>
  Modelled from the spec: the Field Accessor's read of an unsigned integer at its natural
  width (absent from the sources), widened to 64 bits; \<open>InvalidSize\<close> when the
  width is not legal.
\<close>

definition peekUintN :: "Server \<Rightarrow> uint64 \<Rightarrow> int64 \<Rightarrow> reads \<Rightarrow> (error + uint64) \<times> reads" where
  "peekUintN s a n r =
     (if legalWidth n
      then case peek s a (unat n) r of
             (Inl e, r') \<Rightarrow> (Inl e, r')
           | (Inr buf, r') \<Rightarrow> (Inr (UintN (arch s) buf), r')
      else (Inl (InvalidSize n), r))"

text \<open>
  Modelled from the spec: the Field Accessor's read of a signed integer at its natural width
  (absent from the sources), sign-extended to 64 bits; \<open>InvalidSize\<close> when the
  width is not legal.
\<close>

definition peekIntN :: "Server \<Rightarrow> uint64 \<Rightarrow> int64 \<Rightarrow> reads \<Rightarrow> (error + uint64) \<times> reads" where
  "peekIntN s a n r =
     (if legalWidth n
      then case peek s a (unat n) r of
             (Inl e, r') \<Rightarrow> (Inl e, r')
           | (Inr buf, r') \<Rightarrow> (Inr (IntN (arch s) buf), r')
      else (Inl (InvalidSize n), r))"

text \<open>
  Modelled from the spec: \<^verbatim>\<open>s.peekUintOrIntStructField\<close> (absent from
  the sources), the Field Accessor's \<open>readIntegerField\<close>: the same lookup,
  accepting a signed or an unsigned integer field.
\<close>

definition peekUintOrIntStructField ::
  "Server \<Rightarrow> StructT \<Rightarrow> uint64 \<Rightarrow> string \<Rightarrow> reads \<Rightarrow> (error + uint64) \<times> reads" where
  "peekUintOrIntStructField s t addr fieldName r =
     (case getField t fieldName of
        None \<Rightarrow> (Inl (FieldNotFound fieldName), r)
      | Some f \<Rightarrow>
          (case Field_Type f of
             UintType c \<Rightarrow> peekUintN s (addr + Field_ByteOffset f) (ByteSize c) r
           | UcharType c \<Rightarrow> peekUintN s (addr + Field_ByteOffset f) (ByteSize c) r
           | IntType c \<Rightarrow> peekIntN s (addr + Field_ByteOffset f) (ByteSize c) r
           | CharType c \<Rightarrow> peekIntN s (addr + Field_ByteOffset f) (ByteSize c) r
           | _ \<Rightarrow> (Inl (UnsupportedFieldType fieldName), r)))"

subsection \<open>The decoder\<close>

text \<open>\<^verbatim>\<open>readBasic\<close>: the closure of \<^verbatim>\<open>value\<close> that reads \<open>n\<close> bytes at \<open>addr\<close>.\<close>

definition readBasic :: "Server \<Rightarrow> uint64 \<Rightarrow> int64 \<Rightarrow> reads \<Rightarrow> (error + byte list) \<times> reads" where
  "readBasic s addr n r =
     (if n = 1 \<or> n = 2 \<or> n = 4 \<or> n = 8 \<or> n = 16 then peek s addr (unat n) r
      else (Inl (InvalidSize n), r))"

text \<open>The conversions \<^verbatim>\<open>int8(x)\<close> ... \<^verbatim>\<open>int64(x)\<close> and their unsigned twins keep the low bits.\<close>

definition signedOfSize :: "int64 \<Rightarrow> int64 \<Rightarrow> error + Value" where
  "signedOfSize bs x =
     (if bs = 1 then Inr (VInt8 (ucast x))
      else if bs = 2 then Inr (VInt16 (ucast x))
      else if bs = 4 then Inr (VInt32 (ucast x))
      else if bs = 8 then Inr (VInt64 x)
      else Inl (InvalidTypeSize ''integer'' bs))"

definition unsignedOfSize :: "int64 \<Rightarrow> uint64 \<Rightarrow> error + Value" where
  "unsignedOfSize bs x =
     (if bs = 1 then Inr (VUint8 (ucast x))
      else if bs = 2 then Inr (VUint16 (ucast x))
      else if bs = 4 then Inr (VUint32 (ucast x))
      else if bs = 8 then Inr (VUint64 x)
      else Inl (InvalidTypeSize ''unsigned integer'' bs))"

definition valueInt :: "Server \<Rightarrow> CommonType \<Rightarrow> uint64 \<Rightarrow> reads \<Rightarrow> (error + Value) \<times> reads" where
  "valueInt s c addr r =
     (case readBasic s addr (ByteSize c) r of
        (Inl err, r') \<Rightarrow> (Inl (Reading ''integer'' err), r')
      | (Inr buf, r') \<Rightarrow> (signedOfSize (ByteSize c) (IntN (arch s) buf), r'))"

definition valueUint :: "Server \<Rightarrow> CommonType \<Rightarrow> uint64 \<Rightarrow> reads \<Rightarrow> (error + Value) \<times> reads" where
  "valueUint s c addr r =
     (case readBasic s addr (ByteSize c) r of
        (Inl err, r') \<Rightarrow> (Inl (Reading ''unsigned integer'' err), r')
      | (Inr buf, r') \<Rightarrow> (unsignedOfSize (ByteSize c) (UintN (arch s) buf), r'))"

definition valueBool :: "Server \<Rightarrow> CommonType \<Rightarrow> uint64 \<Rightarrow> reads \<Rightarrow> (error + Value) \<times> reads" where
  "valueBool s c addr r =
     (case readBasic s addr (ByteSize c) r of
        (Inl err, r') \<Rightarrow> (Inl (Reading ''boolean'' err), r')
      | (Inr buf, r') \<Rightarrow> (Inr (VBool (list_ex (\<lambda>b. b \<noteq> 0) buf)), r'))"

definition valueFloat :: "Server \<Rightarrow> CommonType \<Rightarrow> uint64 \<Rightarrow> reads \<Rightarrow> (error + Value) \<times> reads" where
  "valueFloat s c addr r =
     (case readBasic s addr (ByteSize c) r of
        (Inl err, r') \<Rightarrow> (Inl (Reading ''float'' err), r')
      | (Inr buf, r') \<Rightarrow>
          (if ByteSize c = 4 then Inr (VFloat32 (Float32 (arch s) buf))
           else if ByteSize c = 8 then Inr (VFloat64 (Float64 (arch s) buf))
           else Inl (InvalidTypeSize ''float'' (ByteSize c)), r'))"

definition valueComplex :: "Server \<Rightarrow> CommonType \<Rightarrow> uint64 \<Rightarrow> reads \<Rightarrow> (error + Value) \<times> reads" where
  "valueComplex s c addr r =
     (case readBasic s addr (ByteSize c) r of
        (Inl err, r') \<Rightarrow> (Inl (Reading ''complex'' err), r')
      | (Inr buf, r') \<Rightarrow>
          (if ByteSize c = 8 then Inr (Complex64 (arch s) buf)
           else if ByteSize c = 16 then Inr (Complex128 (arch s) buf)
           else Inl (InvalidTypeSize ''complex'' (ByteSize c)), r'))"

definition valuePtr ::
  "Server \<Rightarrow> CommonType \<Rightarrow> Type \<Rightarrow> uint64 \<Rightarrow> reads \<Rightarrow> (error + Value) \<times> reads" where
  "valuePtr s c pointee addr r =
     (if ByteSize c \<noteq> PointerSize (arch s) then (Inl (InvalidTypeSize ''pointer'' (ByteSize c)), r)
      else case readBasic s addr (ByteSize c) r of
             (Inl err, r') \<Rightarrow> (Inl (Reading ''pointer'' err), r')
           | (Inr buf, r') \<Rightarrow>
               (Inr (VPointer \<lparr>Pointer_TypeID = ucast (Offset (Common pointee)),
                               Pointer_Address = Uintptr (arch s) buf\<rparr>), r'))"

definition valueSlice ::
  "Server \<Rightarrow> StructT \<Rightarrow> Type \<Rightarrow> uint64 \<Rightarrow> reads \<Rightarrow> (error + Value) \<times> reads" where
  "valueSlice s st elem addr r =
     (case peekPtrStructField s st addr ''array'' r of
        (Inl err, r1) \<Rightarrow> (Inl (Reading ''slice location'' err), r1)
      | (Inr ptr, r1) \<Rightarrow>
     (case peekUintOrIntStructField s st addr ''len'' r1 of
        (Inl err, r2) \<Rightarrow> (Inl (Reading ''slice length'' err), r2)
      | (Inr len, r2) \<Rightarrow>
     (case peekUintOrIntStructField s st addr ''cap'' r2 of
        (Inl err, r3) \<Rightarrow> (Inl (Reading ''slice capacity'' err), r3)
      | (Inr capacity, r3) \<Rightarrow>
          (if capacity < len then (Inl (InconsistentSlice capacity len), r3)
           else (Inr (VSlice \<lparr>Slice_Array =
                                 \<lparr>Array_ElementTypeID = ucast (Offset (Common elem)),
                                  Array_Address = ptr,
                                  Array_Length = len,
                                  Array_StrideBits = ByteSize (Common elem) * 8\<rparr>,
                               Slice_Capacity = capacity\<rparr>), r3)))))"

definition valueArray ::
  "Type \<Rightarrow> int64 \<Rightarrow> int64 \<Rightarrow> uint64 \<Rightarrow> reads \<Rightarrow> (error + Value) \<times> reads" where
  "valueArray elem stride count addr r =
     (if sint stride smod 8 \<noteq> 0 then (Inl Alignment, r)
      else (Inr (VArray \<lparr>Array_ElementTypeID = ucast (Offset (Common elem)),
                         Array_Address = addr,
                         Array_Length = count,
                         Array_StrideBits = stride\<rparr>), r))"

definition valueStructField :: "uint64 \<Rightarrow> StructField \<Rightarrow> ValueField" where
  "valueStructField addr field =
     \<lparr>ValueField_Name = Field_Name field,
      ValueField_Var = \<lparr>Var_TypeID = ucast (Offset (Common (Field_Type field))),
                        Var_Address = addr + Field_ByteOffset field\<rparr>\<rparr>"

definition valueStruct :: "StructT \<Rightarrow> uint64 \<Rightarrow> reads \<Rightarrow> (error + Value) \<times> reads" where
  "valueStruct st addr r = (Inr (VStruct (map (valueStructField addr) (Field st))), r)"

definition valueMap :: "Server \<Rightarrow> Type \<Rightarrow> uint64 \<Rightarrow> reads \<Rightarrow> (error + Value) \<times> reads" where
  "valueMap s t addr r =
     (case peekMapLength s t addr r of
        (Inl err, r') \<Rightarrow> (Inl err, r')
      | (Inr len, r') \<Rightarrow>
          (Inr (VMap \<lparr>Map_TypeID = ucast (Offset (Common t)),
                      Map_Address = addr,
                      Map_Length = len\<rparr>), r'))"

definition maxStringSize :: uint64 where
  "maxStringSize = 256"

definition valueString :: "Server \<Rightarrow> StructT \<Rightarrow> uint64 \<Rightarrow> reads \<Rightarrow> (error + Value) \<times> reads" where
  "valueString s st addr r =
     (case peekPtrStructField s st addr ''str'' r of
        (Inl err, r1) \<Rightarrow> (Inl (Reading ''string location'' err), r1)
      | (Inr ptr, r1) \<Rightarrow>
     (case peekUintOrIntStructField s st addr ''len'' r1 of
        (Inl err, r2) \<Rightarrow> (Inl (Reading ''string length'' err), r2)
      | (Inr len, r2) \<Rightarrow>
          (let n = (if len > maxStringSize then maxStringSize else len) in
           case peekBytes s ptr (unat n) r2 of
             (Inl err, r3) \<Rightarrow> (Inl (Reading ''string contents'' err), r3)
           | (Inr tmp, r3) \<Rightarrow>
               (Inr (VString \<lparr>String_Length = len, String_String = tmp\<rparr>), r3))))"

definition valueChanHeader ::
  "Server \<Rightarrow> StructT \<Rightarrow> Type \<Rightarrow> uint64 \<Rightarrow> reads \<Rightarrow> (error + Value) \<times> reads" where
  "valueChanHeader s st elem a r =
     (case peekPtrStructField s st a ''buf'' r of
        (Inl err, r1) \<Rightarrow> (Inl (Reading ''channel buffer location'' err), r1)
      | (Inr buf, r1) \<Rightarrow>
     (case peekUintOrIntStructField s st a ''qcount'' r1 of
        (Inl err, r2) \<Rightarrow> (Inl (Reading ''channel length'' err), r2)
      | (Inr qcount, r2) \<Rightarrow>
     (case peekUintOrIntStructField s st a ''dataqsiz'' r2 of
        (Inl err, r3) \<Rightarrow> (Inl (Reading ''channel capacity'' err), r3)
      | (Inr capacity, r3) \<Rightarrow>
     (case peekUintOrIntStructField s st a ''recvx'' r3 of
        (Inl err, r4) \<Rightarrow> (Inl (Reading ''channel buffer index'' err), r4)
      | (Inr recvx, r4) \<Rightarrow>
          (Inr (VChannel \<lparr>Channel_ElementTypeID = ucast (Offset (Common elem)),
                          Channel_Address = a,
                          Channel_Buffer = buf,
                          Channel_Length = qcount,
                          Channel_Capacity = capacity,
                          Channel_Stride = ByteSize (Common elem),
                          Channel_BufferStart = recvx\<rparr>), r4)))))"

definition valueChan ::
  "Server \<Rightarrow> Type \<Rightarrow> Type \<Rightarrow> uint64 \<Rightarrow> reads \<Rightarrow> (error + Value) \<times> reads" where
  "valueChan s rep elem addr r =
     (case rep of
        PtrType pc pt \<Rightarrow>
          (case pt of
             StructType st \<Rightarrow>
               (case peekPtr s addr r of
                  (Inl err, r') \<Rightarrow> (Inl (Reading ''channel pointer'' err), r')
                | (Inr a, r') \<Rightarrow>
                    (if a = 0
                     then (Inr (VChannel \<lparr>Channel_ElementTypeID = ucast (Offset (Common elem)),
                                          Channel_Address = 0,
                                          Channel_Buffer = 0,
                                          Channel_Length = 0,
                                          Channel_Capacity = 0,
                                          Channel_Stride = ByteSize (Common elem),
                                          Channel_BufferStart = 0\<rparr>), r')
                     else valueChanHeader s st elem a r'))
           | _ \<Rightarrow> (Inl ChanNotPointerToStruct, r))
      | _ \<Rightarrow> (Inl ChanNotPointer, r))"

definition valueFunc :: "Server \<Rightarrow> uint64 \<Rightarrow> reads \<Rightarrow> (error + Value) \<times> reads" where
  "valueFunc s addr r =
     (case peekPtr s addr r of
        (Inl err, r') \<Rightarrow> (Inl (Reading ''func'' err), r')
      | (Inr a, r') \<Rightarrow> (Inr (VFunc a), r'))"

text \<open>
  \<^verbatim>\<open>func (s *Server) value(t dwarf.Type, addr uint64) (debug.Value, error)\<close>: the type switch,
  one equation per case in the order of the source; the code after the switch is the last
  equation.
\<close>

fun Server_value :: "Server \<Rightarrow> Type \<Rightarrow> uint64 \<Rightarrow> reads \<Rightarrow> (error + Value) \<times> reads" where
  "Server_value s (CharType c) addr r = valueInt s c addr r"
| "Server_value s (IntType c) addr r = valueInt s c addr r"
| "Server_value s (UcharType c) addr r = valueUint s c addr r"
| "Server_value s (UintType c) addr r = valueUint s c addr r"
| "Server_value s (AddrType c) addr r = valueUint s c addr r"
| "Server_value s (BoolType c) addr r = valueBool s c addr r"
| "Server_value s (FloatType c) addr r = valueFloat s c addr r"
| "Server_value s (ComplexType c) addr r = valueComplex s c addr r"
| "Server_value s (PtrType c pointee) addr r = valuePtr s c pointee addr r"
| "Server_value s (SliceType st elem) addr r = valueSlice s st elem addr r"
| "Server_value s (ArrayType c elem stride count) addr r = valueArray elem stride count addr r"
| "Server_value s (StructType st) addr r = valueStruct st addr r"
| "Server_value s (TypedefType c t) addr r = Server_value s t addr r"
| "Server_value s (MapType c rep k e) addr r = valueMap s (MapType c rep k e) addr r"
| "Server_value s (StringType st) addr r = valueString s st addr r"
| "Server_value s (ChanType c rep elem) addr r = valueChan s rep elem addr r"
| "Server_value s (FuncType c) addr r = valueFunc s addr r"
| "Server_value s (InterfaceType c rep) addr r = (Inr VInterface, r)"
| "Server_value s (OtherType n c) addr r = (Inl (UnsupportedType n), r)"

subsection \<open>Writing a value into memory\<close>

text \<open>
  The counterpart of the decoder in the round-trip property: the \<open>w\<close> low bytes of a value in
  the given byte order, and a memory in which a buffer has been written at an address (the byte
  number \<open>i\<close> of the buffer is at \<open>a + i\<close>).
\<close>

definition encodeN :: "ByteOrder \<Rightarrow> nat \<Rightarrow> 'a::len word \<Rightarrow> byte list" where
  "encodeN order w v =
     (case order of
        LittleEndian \<Rightarrow> map (\<lambda>i. ucast (drop_bit (8 * i) v)) [0..<w]
      | BigEndian \<Rightarrow> rev (map (\<lambda>i. ucast (drop_bit (8 * i) v)) [0..<w]))"

definition store :: "(uint64 \<Rightarrow> byte option) \<Rightarrow> uint64 \<Rightarrow> byte list \<Rightarrow> (uint64 \<Rightarrow> byte option)" where
  "store m a bs = (\<lambda>x. if unat (x - a) < length bs then Some (bs ! unat (x - a)) else m x)"

definition withEncoded :: "Server \<Rightarrow> uint64 \<Rightarrow> nat \<Rightarrow> 'a::len word \<Rightarrow> Server" where
  "withEncoded s a w v = s\<lparr>mem := store (mem s) a (encodeN (Arch_ByteOrder (arch s)) w v)\<rparr>"

text \<open>
  The round trip: in the server's memory with the \<open>w\<close> bytes of \<open>v\<close> written at \<open>A\<close> in the
  session's byte order, decoding the type at \<open>A\<close> succeeds with the given Value, after one read
  of \<open>w\<close> bytes at \<open>A\<close>.
\<close>

definition roundTrips :: "Server \<Rightarrow> uint64 \<Rightarrow> reads \<Rightarrow> nat \<Rightarrow> 'a::len word \<Rightarrow> Type \<Rightarrow> Value \<Rightarrow> bool" where
  "roundTrips s A r w v t result \<longleftrightarrow>
     Server_value (withEncoded s A w v) t A r = (Inr result, r @ [(A, w)])"

subsection \<open>Example inputs\<close>

text \<open>A 64-bit little-endian target, and type descriptors as the debug information gives them.\<close>

definition exArch :: Architecture where
  "exArch = \<lparr>Arch_ByteOrder = LittleEndian, PointerSize = 8\<rparr>"

definition exServer :: "(uint64 \<Rightarrow> byte option) \<Rightarrow> Server" where
  "exServer m = \<lparr>arch = exArch, mem = m, peekMapLength = (\<lambda>t a r. (Inr 0, r))\<rparr>"

text \<open>A 32-bit big-endian target.\<close>

definition beServer :: "(uint64 \<Rightarrow> byte option) \<Rightarrow> Server" where
  "beServer m = \<lparr>arch = \<lparr>Arch_ByteOrder = BigEndian, PointerSize = 4\<rparr>, mem = m,
                 peekMapLength = (\<lambda>t a r. (Inr 0, r))\<rparr>"

definition ct :: "int64 \<Rightarrow> 32 word \<Rightarrow> CommonType" where
  "ct n off = \<lparr>ByteSize = n, Name = [], Offset = off\<rparr>"

definition zeroMem :: "uint64 \<Rightarrow> byte option" where
  "zeroMem = (\<lambda>a. Some 0)"

text \<open>The runtime's channel header \<^verbatim>\<open>hchan\<close>, and \<^verbatim>\<open>chan int\<close>.\<close>

definition exHchan :: StructT where
  "exHchan = StructT (ct 96 20)
     [StructField ''qcount'' (UintType (ct 8 21)) 0,
      StructField ''dataqsiz'' (UintType (ct 8 21)) 8,
      StructField ''buf'' (PtrType (ct 8 22) (OtherType ''*dwarf.VoidType'' (ct 0 23))) 16,
      StructField ''recvx'' (UintType (ct 8 21)) 40]"

definition exChan :: Type where
  "exChan = ChanType (ct 8 30) (PtrType (ct 8 31) (StructType exHchan)) (IntType (ct 8 4))"

text \<open>
  \<^verbatim>\<open>[]int32\<close> with its header at \<open>0x1000\<close>: the array pointer is \<open>0x2000\<close>, and the
  memory holds the given length and capacity.
\<close>

definition exSliceHeader :: StructT where
  "exSliceHeader = StructT (ct 24 40)
     [StructField ''array'' (PtrType (ct 8 41) (IntType (ct 4 2))) 0,
      StructField ''len'' (IntType (ct 8 4)) 8,
      StructField ''cap'' (IntType (ct 8 4)) 16]"

definition sliceMem :: "byte \<Rightarrow> byte \<Rightarrow> uint64 \<Rightarrow> byte option" where
  "sliceMem len capacity =
     (\<lambda>a. if a = 0x1001 then Some 0x20
          else if a = 0x1008 then Some len
          else if a = 0x1010 then Some capacity
          else Some 0)"

text \<open>
  A string with its header at \<open>0x1000\<close>: the data pointer is \<open>0x2000\<close>, the length is
  \<open>1000 = 0x3E8\<close>, and the data are bytes \<open>0x61\<close>.
\<close>

definition exStringHeader :: StructT where
  "exStringHeader = StructT (ct 16 50)
     [StructField ''str'' (PtrType (ct 8 51) (UcharType (ct 1 52))) 0,
      StructField ''len'' (IntType (ct 8 4)) 8]"

definition stringMem :: "uint64 \<Rightarrow> byte option" where
  "stringMem =
     (\<lambda>a. if a = 0x1001 then Some 0x20
          else if a = 0x1008 then Some 0xE8
          else if a = 0x1009 then Some 0x03
          else if a < 0x2000 then Some 0
          else Some 0x61)"

text \<open>The struct of the example in the specification: \<open>a\<close> at offset 0, \<open>b\<close> at offset 8.\<close>

definition exStruct :: StructT where
  "exStruct = StructT (ct 16 60)
     [StructField ''a'' (IntType (ct 4 2)) 0,
      StructField ''b'' (IntType (ct 8 4)) 8]"

section \<open>Properties\<close>

subsection \<open>Auxiliary facts\<close>

lemma load_numeral:
  "load m a (numeral k) =
     (case m a of
        None \<Rightarrow> None
      | Some b \<Rightarrow> (case load m (a + 1) (pred_numeral k) of None \<Rightarrow> None | Some bs \<Rightarrow> Some (b # bs)))"
  by (simp add: numeral_eq_Suc)

lemma load_length: "load m a n = Some bs \<Longrightarrow> length bs = n"
  by (induction n arbitrary: a bs) (auto split: option.splits)

lemmas ex_defs = exServer_def exArch_def ct_def zeroMem_def

lemmas port_defs = peek_def peekPtr_def peekBytes_def Uintptr_def UintN_def IntN_def ordered_def
  be_step_def load_numeral

lemmas field_defs = peekPtrStructField_def peekUintOrIntStructField_def getField_def
  peekUintN_def peekIntN_def legalWidth_def

lemma peek_reads: "snd (peek s a n r) = r @ [(a, n)]"
  by (simp add: peek_def split: option.splits)

lemma peekPtr_reads: "snd (peekPtr s a r) = r @ [(a, unat (PointerSize (arch s)))]"
  by (simp add: peekPtr_def peek_def split: option.splits)

text \<open>Go's \<^verbatim>\<open>stride%8 != 0\<close> truncates towards zero; it says that 8 does not divide the stride.\<close>

lemma smod8_dvd: "(sint (w::64 word) smod 8 \<noteq> 0) = (\<not> 8 dvd sint w)"
  by (auto simp add: smod_int_alt_def sgn_if dvd_eq_mod_eq_0 zmod_zminus1_eq_if abs_if
      split: if_splits)

subsection \<open>Channels\<close>

text \<open>
  C1 (as amended). For a channel type whose representation is a pointer to a struct and every
  address: when the pointer-width value read at the address is zero (a nil channel), decoding
  returns a Channel whose header address, buffer address, length, capacity and buffer read
  offset are 0, whose element type identifier and stride are those of the element type (the
  stride is the element's byte size, not 0), and the only memory read performed is the read of
  that pointer.
\<close>

theorem nil_chan_value:
  assumes "peekPtr s addr r = (Inr 0, r')"
  shows "Server_value s (ChanType c (PtrType pc (StructType st)) elem) addr r =
           (Inr (VChannel \<lparr>Channel_ElementTypeID = ucast (Offset (Common elem)),
                           Channel_Address = 0,
                           Channel_Buffer = 0,
                           Channel_Length = 0,
                           Channel_Capacity = 0,
                           Channel_Stride = ByteSize (Common elem),
                           Channel_BufferStart = 0\<rparr>), r')
       \<and> r' = r @ [(addr, unat (PointerSize (arch s)))]"
proof (rule conjI)
  show "Server_value s (ChanType c (PtrType pc (StructType st)) elem) addr r =
           (Inr (VChannel \<lparr>Channel_ElementTypeID = ucast (Offset (Common elem)),
                           Channel_Address = 0,
                           Channel_Buffer = 0,
                           Channel_Length = 0,
                           Channel_Capacity = 0,
                           Channel_Stride = ByteSize (Common elem),
                           Channel_BufferStart = 0\<rparr>), r')"
    using assms by (simp add: valueChan_def)
  have "snd (peekPtr s addr r) = r'"
    using assms by simp
  then show "r' = r @ [(addr, unat (PointerSize (arch s)))]"
    by (simp only: peekPtr_reads)
qed

theorem nil_chan_value_witness:
  "peekPtr (exServer zeroMem) 0x1000 [] = (Inr 0, [(0x1000, 8)])
   \<and> Server_value (exServer zeroMem) exChan 0x1000 [] =
       (Inr (VChannel \<lparr>Channel_ElementTypeID = 4, Channel_Address = 0, Channel_Buffer = 0,
                       Channel_Length = 0, Channel_Capacity = 0, Channel_Stride = 8,
                       Channel_BufferStart = 0\<rparr>), [(0x1000, 8)])"
proof -
  have p: "peekPtr (exServer zeroMem) 0x1000 [] = (Inr 0, [(0x1000, 8)])"
    by (simp add: ex_defs port_defs)
  have "Server_value (exServer zeroMem) exChan 0x1000 [] =
       (Inr (VChannel \<lparr>Channel_ElementTypeID = 4, Channel_Address = 0, Channel_Buffer = 0,
                       Channel_Length = 0, Channel_Capacity = 0, Channel_Stride = 8,
                       Channel_BufferStart = 0\<rparr>), [(0x1000, 8)])"
    using nil_chan_value [OF p, of "ct 8 30" "ct 8 31" exHchan "IntType (ct 8 4)", THEN conjunct1]
    by (simp add: exChan_def ct_def)
  with p show ?thesis by (rule conjI)
qed

text \<open>
  C1 as stated fails: in all-zero memory the pointer read at \<open>0x1000\<close> is zero, yet the
  \<^verbatim>\<open>chan int\<close> decoded there has stride 8, the byte size of its element type; and a channel
  type whose representation is not a pointer does not decode to a Channel at all.
\<close>

theorem nil_chan_stride_counterexample:
  "peekPtr (exServer zeroMem) 0x1000 [] = (Inr 0, [(0x1000, 8)])
   \<and> Server_value (exServer zeroMem) exChan 0x1000 [] =
       (Inr (VChannel \<lparr>Channel_ElementTypeID = 4, Channel_Address = 0, Channel_Buffer = 0,
                       Channel_Length = 0, Channel_Capacity = 0, Channel_Stride = 8,
                       Channel_BufferStart = 0\<rparr>), [(0x1000, 8)])
   \<and> Channel_Stride \<lparr>Channel_ElementTypeID = 4, Channel_Address = 0, Channel_Buffer = 0,
                       Channel_Length = 0, Channel_Capacity = 0, Channel_Stride = 8,
                       Channel_BufferStart = 0\<rparr> \<noteq> 0
   \<and> Server_value (exServer zeroMem) (ChanType (ct 8 30) (IntType (ct 8 4)) (IntType (ct 8 4)))
         0x1000 [] = (Inl ChanNotPointer, [])"
  by (simp add: exChan_def exHchan_def ex_defs port_defs valueChan_def)

text \<open>
  C10. A channel type whose representation is not a pointer to a struct fails to decode, and
  the failure comes before any memory read: the log of reads is unchanged. The error is
  "type is not a pointer" or "type is not a pointer to struct".
\<close>

theorem chan_malformed_rep:
  assumes "\<nexists>pc st. rep = PtrType pc (StructType st)"
  shows "Server_value s (ChanType c rep elem) addr r =
           (Inl (case rep of PtrType pc pt \<Rightarrow> ChanNotPointerToStruct | _ \<Rightarrow> ChanNotPointer), r)"
  using assms by (auto simp add: valueChan_def split: Type.splits)

theorem chan_malformed_rep_witness:
  "Server_value (exServer zeroMem) (ChanType (ct 8 30) (PtrType (ct 8 31) (IntType (ct 8 4))) (IntType (ct 8 4)))
       0x1000 [] = (Inl ChanNotPointerToStruct, [])
   \<and> Server_value (exServer zeroMem) (ChanType (ct 8 30) (StructType exHchan) (IntType (ct 8 4)))
       0x1000 [] = (Inl ChanNotPointer, [])"
proof -
  have h1: "\<nexists>pc st. PtrType (ct 8 31) (IntType (ct 8 4)) = PtrType pc (StructType st)"
    by simp
  have h2: "\<nexists>pc st. StructType exHchan = PtrType pc (StructType st)"
    by simp
  show ?thesis
    using chan_malformed_rep [OF h1, of "exServer zeroMem" "ct 8 30" "IntType (ct 8 4)" "0x1000" "[]"]
      chan_malformed_rep [OF h2, of "exServer zeroMem" "ct 8 30" "IntType (ct 8 4)" "0x1000" "[]"]
    by simp
qed

subsection \<open>Integer-like types\<close>

text \<open>
  C2 (as amended). For a signed, unsigned or address type whose byte size is outside
  \<open>{1,2,4,8}\<close>, decoding fails at every address. For a Bool type with such a byte size,
  decoding fails with the invalid-size error, without reading, unless the byte size is 16: then
  16 bytes are read, and the result is a boolean Value (true when some byte is not zero) when
  they can be read and a read failure when they cannot.
\<close>

theorem integerlike_invalid_size:
  assumes "ByteSize c \<notin> {1, 2, 4, 8}"
  shows "isl (fst (Server_value s (CharType c) addr r))
       \<and> isl (fst (Server_value s (IntType c) addr r))
       \<and> isl (fst (Server_value s (UcharType c) addr r))
       \<and> isl (fst (Server_value s (UintType c) addr r))
       \<and> isl (fst (Server_value s (AddrType c) addr r))
       \<and> Server_value s (BoolType c) addr r =
           (if ByteSize c = 16
            then (case load (mem s) addr 16 of
                    None \<Rightarrow> (Inl (Reading ''boolean'' (ReadFailure addr 16)), r @ [(addr, 16)])
                  | Some buf \<Rightarrow> (Inr (VBool (list_ex (\<lambda>b. b \<noteq> 0) buf)), r @ [(addr, 16)]))
            else (Inl (Reading ''boolean'' (InvalidSize (ByteSize c))), r))"
  using assms
  by (auto simp add: valueInt_def valueUint_def valueBool_def readBasic_def peek_def
      signedOfSize_def unsignedOfSize_def split: option.splits)

theorem integerlike_invalid_size_witness:
  "ByteSize (ct 3 1) \<notin> {1, 2, 4, 8}
   \<and> Server_value (exServer zeroMem) (IntType (ct 3 1)) 0x1000 []
       = (Inl (Reading ''integer'' (InvalidSize 3)), [])
   \<and> Server_value (exServer zeroMem) (BoolType (ct 3 1)) 0x1000 []
       = (Inl (Reading ''boolean'' (InvalidSize 3)), [])"
proof -
  have h: "ByteSize (ct 3 1) \<notin> {1, 2, 4, 8}" by (simp add: ct_def)
  show ?thesis
    using h integerlike_invalid_size [OF h, of "exServer zeroMem" "0x1000" "[]"]
    by (simp add: ct_def valueInt_def readBasic_def)
qed

text \<open>
  C2 as stated fails: a Bool type of byte size 16, which is outside \<open>{1,2,4,8}\<close>, decodes to
  a boolean Value in readable memory.
\<close>

theorem bool_size16_counterexample:
  "ByteSize (ct 16 1) \<notin> {1, 2, 4, 8}
   \<and> Server_value (exServer zeroMem) (BoolType (ct 16 1)) 0x1000 []
       = (Inr (VBool False), [(0x1000, 16)])"
  by (simp add: ex_defs port_defs valueBool_def readBasic_def)

subsection \<open>Typedefs, structs, arrays, unsupported types\<close>

text \<open>
  C5. Decoding a typedef of a type \<open>t\<close> at an address gives exactly what decoding \<open>t\<close> at that
  address gives: the same Value or the same error, after the same memory reads.
\<close>

theorem typedef_transparent:
  "Server_value s (TypedefType c t) addr r = Server_value s t addr r"
  by simp

theorem typedef_transparent_witness:
  "Server_value (exServer zeroMem) (TypedefType (ct 4 9) (IntType (ct 4 1))) 0x1000 []
     = (Inr (VInt32 0), [(0x1000, 4)])
   \<and> Server_value (exServer zeroMem) (IntType (ct 4 1)) 0x1000 [] = (Inr (VInt32 0), [(0x1000, 4)])"
  by (subst typedef_transparent)
     (simp add: valueInt_def readBasic_def signedOfSize_def ex_defs port_defs)

text \<open>
  C7. Decoding a struct type at an address \<open>A\<close> succeeds with a Struct of one field view per
  declared field, in declaration order; the view number \<open>i\<close> carries the name of the field
  number \<open>i\<close>, the identifier of its type and the address \<open>A\<close> plus its byte offset. No
  memory is read: the log of reads is unchanged, whatever the memory holds.
\<close>

theorem struct_field_views:
  "\<exists>vs. Server_value s (StructType st) addr r = (Inr (VStruct vs), r)
      \<and> length vs = length (Field st)
      \<and> (\<forall>i < length (Field st).
            ValueField_Name (vs ! i) = Field_Name (Field st ! i)
          \<and> Var_TypeID (ValueField_Var (vs ! i)) = ucast (Offset (Common (Field_Type (Field st ! i))))
          \<and> Var_Address (ValueField_Var (vs ! i)) = addr + Field_ByteOffset (Field st ! i))"
  by (simp add: valueStruct_def valueStructField_def)

theorem struct_field_views_witness:
  "Server_value (exServer Map.empty) (StructType exStruct) 0x5000 [] =
     (Inr (VStruct
        [\<lparr>ValueField_Name = ''a'', ValueField_Var = \<lparr>Var_TypeID = 2, Var_Address = 0x5000\<rparr>\<rparr>,
         \<lparr>ValueField_Name = ''b'', ValueField_Var = \<lparr>Var_TypeID = 4, Var_Address = 0x5008\<rparr>\<rparr>]),
      [])"
  using struct_field_views [of "exServer Map.empty" exStruct "0x5000" "[]"]
  by (simp add: exStruct_def ct_def valueStruct_def valueStructField_def)

text \<open>
  C8. Decoding an array type at an address \<open>A\<close> fails with the alignment error exactly when
  8 does not divide the stride in bits; otherwise it succeeds with an Array view at \<open>A\<close>, whose
  length is the type's count and whose stride is the declared stride. In both cases no memory
  is read.
\<close>

theorem array_view:
  "Server_value s (ArrayType c elem stride count) addr r =
     (if 8 dvd sint stride
      then Inr (VArray \<lparr>Array_ElementTypeID = ucast (Offset (Common elem)),
                        Array_Address = addr,
                        Array_Length = count,
                        Array_StrideBits = stride\<rparr>)
      else Inl Alignment, r)"
  by (simp add: valueArray_def smod8_dvd)

theorem array_view_witness:
  "Server_value (exServer Map.empty) (ArrayType (ct 48 1) (IntType (ct 4 2)) 12 4) 0x1000 []
     = (Inl Alignment, [])
   \<and> Server_value (exServer Map.empty) (ArrayType (ct 16 1) (IntType (ct 4 2)) 32 4) 0x1000 []
     = (Inr (VArray \<lparr>Array_ElementTypeID = 2, Array_Address = 0x1000, Array_Length = 4,
                     Array_StrideBits = 32\<rparr>), [])"
  using array_view [of "exServer Map.empty" "ct 48 1" "IntType (ct 4 2)" 12 4 "0x1000" "[]"]
    array_view [of "exServer Map.empty" "ct 16 1" "IntType (ct 4 2)" 32 4 "0x1000" "[]"]
  by (simp add: ct_def)

text \<open>
  C9. A type descriptor of a variant that the decoder has no rule for fails to decode at every
  address, with the unsupported-type error that names the variant; no Value is returned and
  nothing is read.
\<close>

theorem unsupported_type:
  "Server_value s (OtherType n c) addr r = (Inl (UnsupportedType n), r)"
  by simp

theorem unsupported_type_witness:
  "Server_value (exServer zeroMem) (OtherType ''*dwarf.EnumType'' (ct 4 70)) 0x1000 []
     = (Inl (UnsupportedType ''*dwarf.EnumType''), [])"
  by (rule unsupported_type)

subsection \<open>Slices and strings\<close>

lemma slice_reads:
  "peekPtrStructField (exServer (sliceMem l c)) exSliceHeader 0x1000 ''array'' [] = (Inr 0x2000, [(0x1000, 8)])"
  "peekUintOrIntStructField (exServer (sliceMem l c)) exSliceHeader 0x1000 ''len'' [(0x1000, 8)]
     = (Inr (ucast l), [(0x1000, 8), (0x1008, 8)])"
  "peekUintOrIntStructField (exServer (sliceMem l c)) exSliceHeader 0x1000 ''cap'' [(0x1000, 8), (0x1008, 8)]
     = (Inr (ucast c), [(0x1000, 8), (0x1008, 8), (0x1010, 8)])"
  by (simp_all add: field_defs exSliceHeader_def sliceMem_def exServer_def exArch_def ct_def port_defs)

lemma unat_string_size:
  "unat (if len > maxStringSize then maxStringSize else len) = min (unat len) 256"
  by (simp add: maxStringSize_def word_less_nat_alt min_def)

lemma load_stringMem:
  "0x2000 \<le> a \<Longrightarrow> unat a + n < 2 ^ 64 \<Longrightarrow> load stringMem a n = Some (replicate n 0x61)"
proof (induction n arbitrary: a)
  case 0
  then show ?case by simp
next
  case (Suc n)
  have a: "a \<noteq> 0x1001" "a \<noteq> 0x1008" "a \<noteq> 0x1009" "\<not> a < 0x2000"
    using Suc.prems(1) by auto
  have "unat a + 1 < 2 ^ 64" using Suc.prems(2) by simp
  then have u: "unat (a + 1) = unat a + 1"
    by (simp add: unat_word_ariths)
  then have "0x2000 \<le> a + 1" using Suc.prems(1)
    by (simp add: word_le_nat_alt)
  with Suc u have "load stringMem (a + 1) n = Some (replicate n 0x61)" by simp
  with a show ?case by (simp add: stringMem_def)
qed

lemma string_reads:
  "peekPtrStructField (exServer stringMem) exStringHeader 0x1000 ''str'' [] = (Inr 0x2000, [(0x1000, 8)])"
  "peekUintOrIntStructField (exServer stringMem) exStringHeader 0x1000 ''len'' [(0x1000, 8)]
     = (Inr 1000, [(0x1000, 8), (0x1008, 8)])"
  by (simp_all add: field_defs exStringHeader_def stringMem_def exServer_def exArch_def ct_def port_defs)

text \<open>
  C3. For a slice type and an address where the three header fields \<open>array\<close>, \<open>len\<close> and
  \<open>cap\<close> are read successfully: decoding fails with the inconsistent-slice error exactly when
  the capacity read is less than the length read (as unsigned 64-bit numbers); otherwise it
  succeeds with a Slice of that capacity around an Array view whose address is the pointer read,
  whose length is the length read and whose stride in bits is the element type's byte size
  times 8 (in \<^verbatim>\<open>uint64\<close> arithmetic, as the source computes it).
\<close>

theorem slice_view:
  assumes "peekPtrStructField s st addr ''array'' r = (Inr ptr, r1)"
    and "peekUintOrIntStructField s st addr ''len'' r1 = (Inr len, r2)"
    and "peekUintOrIntStructField s st addr ''cap'' r2 = (Inr capacity, r3)"
  shows "Server_value s (SliceType st elem) addr r =
     (if capacity < len then Inl (InconsistentSlice capacity len)
      else Inr (VSlice \<lparr>Slice_Array =
                          \<lparr>Array_ElementTypeID = ucast (Offset (Common elem)),
                           Array_Address = ptr,
                           Array_Length = len,
                           Array_StrideBits = ByteSize (Common elem) * 8\<rparr>,
                        Slice_Capacity = capacity\<rparr>), r3)"
  using assms by (simp add: valueSlice_def)

theorem slice_view_witness:
  "peekPtrStructField (exServer (sliceMem 3 5)) exSliceHeader 0x1000 ''array'' []
     = (Inr 0x2000, [(0x1000, 8)])
   \<and> peekUintOrIntStructField (exServer (sliceMem 3 5)) exSliceHeader 0x1000 ''len'' [(0x1000, 8)]
     = (Inr 3, [(0x1000, 8), (0x1008, 8)])
   \<and> peekUintOrIntStructField (exServer (sliceMem 3 5)) exSliceHeader 0x1000 ''cap''
       [(0x1000, 8), (0x1008, 8)]
     = (Inr 5, [(0x1000, 8), (0x1008, 8), (0x1010, 8)])
   \<and> Server_value (exServer (sliceMem 3 5)) (SliceType exSliceHeader (IntType (ct 4 2))) 0x1000 []
     = (Inr (VSlice \<lparr>Slice_Array = \<lparr>Array_ElementTypeID = 2, Array_Address = 0x2000,
                                     Array_Length = 3, Array_StrideBits = 32\<rparr>,
                      Slice_Capacity = 5\<rparr>), [(0x1000, 8), (0x1008, 8), (0x1010, 8)])
   \<and> Server_value (exServer (sliceMem 5 3)) (SliceType exSliceHeader (IntType (ct 4 2))) 0x1000 []
     = (Inl (InconsistentSlice 3 5), [(0x1000, 8), (0x1008, 8), (0x1010, 8)])"
  using slice_reads [of 3 5]
    slice_view [OF slice_reads [of 3 5], of "IntType (ct 4 2)"]
    slice_view [OF slice_reads [of 5 3], of "IntType (ct 4 2)"]
  by (simp add: ct_def)

text \<open>
  C4. For a string type and an address whose header is read successfully, with declared length
  \<open>L\<close>: after the header, the decoder performs exactly one read, of \<open>min(L, 256)\<close> bytes
  at the data pointer, whatever \<open>L\<close> is; and when decoding succeeds, the result is a String
  value whose length field is \<open>L\<close> and whose preview has \<open>min(L, 256)\<close> bytes.
\<close>

theorem string_preview:
  assumes "peekPtrStructField s st addr ''str'' r = (Inr ptr, r1)"
    and "peekUintOrIntStructField s st addr ''len'' r1 = (Inr len, r2)"
  shows "snd (Server_value s (StringType st) addr r) = r2 @ [(ptr, min (unat len) 256)]
       \<and> (\<forall>v. fst (Server_value s (StringType st) addr r) = Inr v \<longrightarrow>
             (\<exists>preview. v = VString \<lparr>String_Length = len, String_String = preview\<rparr>
                      \<and> length preview = min (unat len) 256))"
  using assms
  by (auto simp add: valueString_def Let_def peekBytes_def peek_def unat_string_size
      split: option.splits dest: load_length split del: if_split)

theorem string_preview_witness:
  "peekPtrStructField (exServer stringMem) exStringHeader 0x1000 ''str'' []
     = (Inr 0x2000, [(0x1000, 8)])
   \<and> peekUintOrIntStructField (exServer stringMem) exStringHeader 0x1000 ''len'' [(0x1000, 8)]
     = (Inr 1000, [(0x1000, 8), (0x1008, 8)])
   \<and> Server_value (exServer stringMem) (StringType exStringHeader) 0x1000 []
     = (Inr (VString \<lparr>String_Length = 1000, String_String = replicate 256 0x61\<rparr>),
        [(0x1000, 8), (0x1008, 8), (0x2000, 256)])"
proof -
  have "load stringMem 0x2000 256 = Some (replicate 256 0x61)"
    by (rule load_stringMem) simp_all
  moreover have "mem (exServer stringMem) = stringMem"
    by (simp add: exServer_def)
  ultimately have "Server_value (exServer stringMem) (StringType exStringHeader) 0x1000 []
     = (Inr (VString \<lparr>String_Length = 1000, String_String = replicate 256 0x61\<rparr>),
        [(0x1000, 8), (0x1008, 8), (0x2000, 256)])"
    by (simp add: valueString_def string_reads maxStringSize_def peekBytes_def peek_def)
  with string_preview [OF string_reads] string_reads show ?thesis by simp
qed

subsection \<open>Integers: writing a value and decoding it\<close>

text \<open>
  The bits of a number assembled from bytes, most significant byte first: bit \<open>n\<close> is bit
  \<open>n mod 8\<close> of the byte number \<open>n div 8\<close> from the end, and the bits of the start value lie
  above the bytes.
\<close>

lemma bit_be_step:
  "bit (be_step u c) n \<longleftrightarrow> (8 \<le> n \<and> n < 64 \<and> bit u (n - 8)) \<or> (n < 8 \<and> bit c n)"
  by (auto simp add: be_step_def bit_simps dest: bit_imp_le_length)

lemma bit_foldl_be_step:
  "bit (foldl be_step u bs) n \<longleftrightarrow>
     n < 64 \<and> (if n < 8 * length bs then bit (rev bs ! (n div 8)) (n mod 8)
               else bit u (n - 8 * length bs))"
proof (induction bs arbitrary: n rule: rev_induct)
  case Nil
  then show ?case by (auto dest: bit_imp_le_length)
next
  case (snoc b bs)
  show ?case
  proof (cases "n < 8")
    case True
    then show ?thesis by (simp add: bit_be_step)
  next
    case False
    then have d: "n div 8 = Suc ((n - 8) div 8)" and m: "n mod 8 = (n - 8) mod 8"
      by (simp_all add: le_div_geq le_mod_geq)
    have l: "n < 8 * length (bs @ [b]) \<longleftrightarrow> n - 8 < 8 * length bs"
      using False by auto
    have s: "n - 8 * length (bs @ [b]) = n - 8 - 8 * length bs"
      by simp
    show ?thesis
      using False unfolding l s
      by (auto simp add: bit_be_step snoc.IH d m)
  qed
qed

lemma load_store_aux:
  "k + n \<le> length bs \<Longrightarrow> length bs \<le> 2 ^ 64 \<Longrightarrow>
     load (store m a bs) (a + of_nat k) n = Some (take n (drop k bs))"
proof (induction n arbitrary: k)
  case 0
  then show ?case by simp
next
  case (Suc n)
  have k: "k < length bs" "k < 2 ^ 64" using Suc.prems by auto
  then have u: "unat (of_nat k :: uint64) = k"
    by (simp add: unat_of_nat)
  have here: "store m a bs (a + of_nat k) = Some (bs ! k)"
    using k u by (simp add: store_def)
  have "load (store m a bs) (a + of_nat (Suc k)) n = Some (take n (drop (Suc k) bs))"
    using Suc.prems by (intro Suc.IH) auto
  then have rest: "load (store m a bs) (a + of_nat k + 1) n = Some (take n (drop (Suc k) bs))"
    by (simp add: ac_simps)
  have "take (Suc n) (drop k bs) = bs ! k # take n (drop (Suc k) bs)"
    using k by (simp add: Cons_nth_drop_Suc [symmetric])
  with here rest show ?case by simp
qed

lemma load_store:
  "length bs \<le> 2 ^ 64 \<Longrightarrow> load (store m a bs) a (length bs) = Some bs"
  using load_store_aux [of 0 "length bs" bs m a] by simp

lemma decode_encoded_bits:
  fixes v :: "'a::len word"
  assumes "LENGTH('a) = 8 * w" "w \<le> 8"
  shows "(ucast (foldl be_step u (rev (map (\<lambda>i. ucast (drop_bit (8 * i) v) :: byte) [0..<w]))) :: 'a word) = v"
proof (rule bit_word_eqI)
  fix n
  assume n: "n < LENGTH('a)"
  then have "n < 8 * w" "n < 64" "n div 8 < w" using assms(1,2) by auto
  then show "bit (ucast (foldl be_step u (rev (map (\<lambda>i. ucast (drop_bit (8 * i) v) :: byte) [0..<w]))) :: 'a word) n
      \<longleftrightarrow> bit v n"
    using n by (simp add: bit_ucast_iff bit_foldl_be_step bit_drop_bit_eq)
qed

lemma decode_encoded_signed:
  fixes v :: "'a::len word"
  assumes "LENGTH('a) = 8 * Suc w" "Suc w \<le> 8"
  shows "(ucast (foldl be_step (scast (ucast (drop_bit (8 * w) v) :: byte))
            (rev (map (\<lambda>i. ucast (drop_bit (8 * i) v) :: byte) [0..<w]))) :: 'a word) = v"
proof (rule bit_word_eqI)
  fix n
  assume n: "n < LENGTH('a)"
  then have b: "n < 8 * w + 8" "n < 64" using assms by auto
  show "bit (ucast (foldl be_step (scast (ucast (drop_bit (8 * w) v) :: byte))
            (rev (map (\<lambda>i. ucast (drop_bit (8 * i) v) :: byte) [0..<w]))) :: 'a word) n
      \<longleftrightarrow> bit v n"
  proof (cases "n < 8 * w")
    case True
    then have "n div 8 < w" by auto
    with True n b show ?thesis
      by (simp add: bit_ucast_iff bit_foldl_be_step bit_drop_bit_eq)
  next
    case False
    define m where "m = n - 8 * w"
    have nm: "n = 8 * w + m" and m: "m < 8" "min 7 m = m"
      using False b by (auto simp add: m_def)
    have l: "8 * w + m < LENGTH('a)" "8 * w + m < 64"
      using n b unfolding nm by auto
    show ?thesis
      unfolding nm using l m
      by (simp add: bit_ucast_iff bit_foldl_be_step bit_drop_bit_eq bit_signed_iff)
  qed
qed

lemma ordered_encodeN:
  "ordered a (encodeN (Arch_ByteOrder a) w v) = rev (map (\<lambda>i. ucast (drop_bit (8 * i) v)) [0..<w])"
  by (cases "Arch_ByteOrder a") (simp_all add: ordered_def encodeN_def)

lemma length_encodeN: "length (encodeN order w v) = w"
  by (cases order) (simp_all add: encodeN_def)

lemma UintN_encodeN:
  fixes v :: "'a::len word"
  assumes "LENGTH('a) = 8 * w" "w \<le> 8"
  shows "ucast (UintN a (encodeN (Arch_ByteOrder a) w v)) = v"
  unfolding UintN_def ordered_encodeN using assms by (rule decode_encoded_bits)

lemma IntN_encodeN:
  fixes v :: "'a::len word"
  assumes "LENGTH('a) = 8 * w" "w \<le> 8"
  shows "ucast (IntN a (encodeN (Arch_ByteOrder a) w v)) = v"
proof (cases w)
  case 0
  with assms show ?thesis by simp
next
  case (Suc w')
  with assms show ?thesis
    unfolding IntN_def ordered_encodeN by (simp add: decode_encoded_signed)
qed

lemma peek_withEncoded:
  assumes "w \<le> 8"
  shows "peek (withEncoded s A w v) A w r = (Inr (encodeN (Arch_ByteOrder (arch s)) w v), r @ [(A, w)])"
proof -
  have "load (store (mem s) A (encodeN (Arch_ByteOrder (arch s)) w v)) A
          (length (encodeN (Arch_ByteOrder (arch s)) w v))
        = Some (encodeN (Arch_ByteOrder (arch s)) w v)"
    using assms by (intro load_store) (simp add: length_encodeN)
  then show ?thesis
    by (simp add: peek_def withEncoded_def length_encodeN)
qed

lemma arch_withEncoded: "arch (withEncoded s A w v) = arch s"
  by (simp add: withEncoded_def)

lemma valueInt_roundtrip:
  fixes v :: "'a::len word"
  assumes "LENGTH('a) = 8 * w" "w \<in> {1, 2, 4, 8}" "ByteSize c = of_nat w"
  shows "valueInt (withEncoded s A w v) c A r =
           (signedOfSize (of_nat w) (IntN (arch s) (encodeN (Arch_ByteOrder (arch s)) w v)), r @ [(A, w)])"
  using assms peek_withEncoded [of w s A v r]
  by (auto simp add: valueInt_def readBasic_def arch_withEncoded)

lemma valueUint_roundtrip:
  fixes v :: "'a::len word"
  assumes "LENGTH('a) = 8 * w" "w \<in> {1, 2, 4, 8}" "ByteSize c = of_nat w"
  shows "valueUint (withEncoded s A w v) c A r =
           (unsignedOfSize (of_nat w) (UintN (arch s) (encodeN (Arch_ByteOrder (arch s)) w v)), r @ [(A, w)])"
  using assms peek_withEncoded [of w s A v r]
  by (auto simp add: valueUint_def readBasic_def arch_withEncoded)

lemma IntN_encodeN64: "IntN a (encodeN (Arch_ByteOrder a) 8 (v::64 word)) = v"
  using IntN_encodeN [of 8 a v] by simp

lemma UintN_encodeN64: "UintN a (encodeN (Arch_ByteOrder a) 8 (v::64 word)) = v"
  using UintN_encodeN [of 8 a v] by simp

lemma roundtrip_1:
  fixes v :: "8 word"
  assumes "ByteSize c = 1"
  shows "roundTrips s A r 1 v (CharType c) (VInt8 v)" "roundTrips s A r 1 v (IntType c) (VInt8 v)"
    "roundTrips s A r 1 v (UcharType c) (VUint8 v)" "roundTrips s A r 1 v (UintType c) (VUint8 v)"
    "roundTrips s A r 1 v (AddrType c) (VUint8 v)"
  using assms valueInt_roundtrip [of 1 c s A v r] valueUint_roundtrip [of 1 c s A v r]
  by (simp_all add: roundTrips_def signedOfSize_def unsignedOfSize_def IntN_encodeN UintN_encodeN)

lemma roundtrip_2:
  fixes v :: "16 word"
  assumes "ByteSize c = 2"
  shows "roundTrips s A r 2 v (CharType c) (VInt16 v)" "roundTrips s A r 2 v (IntType c) (VInt16 v)"
    "roundTrips s A r 2 v (UcharType c) (VUint16 v)" "roundTrips s A r 2 v (UintType c) (VUint16 v)"
    "roundTrips s A r 2 v (AddrType c) (VUint16 v)"
  using assms valueInt_roundtrip [of 2 c s A v r] valueUint_roundtrip [of 2 c s A v r]
  by (simp_all add: roundTrips_def signedOfSize_def unsignedOfSize_def IntN_encodeN UintN_encodeN)

lemma roundtrip_4:
  fixes v :: "32 word"
  assumes "ByteSize c = 4"
  shows "roundTrips s A r 4 v (CharType c) (VInt32 v)" "roundTrips s A r 4 v (IntType c) (VInt32 v)"
    "roundTrips s A r 4 v (UcharType c) (VUint32 v)" "roundTrips s A r 4 v (UintType c) (VUint32 v)"
    "roundTrips s A r 4 v (AddrType c) (VUint32 v)"
  using assms valueInt_roundtrip [of 4 c s A v r] valueUint_roundtrip [of 4 c s A v r]
  by (simp_all add: roundTrips_def signedOfSize_def unsignedOfSize_def IntN_encodeN UintN_encodeN)

lemma roundtrip_8:
  fixes v :: "64 word"
  assumes "ByteSize c = 8"
  shows "roundTrips s A r 8 v (CharType c) (VInt64 v)" "roundTrips s A r 8 v (IntType c) (VInt64 v)"
    "roundTrips s A r 8 v (UcharType c) (VUint64 v)" "roundTrips s A r 8 v (UintType c) (VUint64 v)"
    "roundTrips s A r 8 v (AddrType c) (VUint64 v)"
  using assms valueInt_roundtrip [of 8 c s A v r] valueUint_roundtrip [of 8 c s A v r]
  by (simp_all add: roundTrips_def signedOfSize_def unsignedOfSize_def IntN_encodeN64 UintN_encodeN64)

text \<open>
  C6. For every width \<open>w\<close> in \<open>{1,2,4,8}\<close> and every signed (char, int) or unsigned (uchar,
  uint, address) integer type of byte size \<open>w\<close>: when the \<open>w\<close> bytes of a \<open>w\<close>-byte value
  \<open>V\<close> have been written at an address \<open>A\<close> in the session's byte order, decoding the type
  at \<open>A\<close> returns \<open>V\<close> in the Value case of exactly that width (an 8-bit type gives the 8-bit
  case), after one read of \<open>w\<close> bytes.
\<close>

theorem int_roundtrip:
  fixes v8 :: "8 word" and v16 :: "16 word" and v32 :: "32 word" and v64 :: "64 word"
  shows
    "(ByteSize c = 1 \<longrightarrow>
        roundTrips s A r 1 v8 (CharType c) (VInt8 v8) \<and> roundTrips s A r 1 v8 (IntType c) (VInt8 v8)
      \<and> roundTrips s A r 1 v8 (UcharType c) (VUint8 v8) \<and> roundTrips s A r 1 v8 (UintType c) (VUint8 v8)
      \<and> roundTrips s A r 1 v8 (AddrType c) (VUint8 v8))
   \<and> (ByteSize c = 2 \<longrightarrow>
        roundTrips s A r 2 v16 (CharType c) (VInt16 v16) \<and> roundTrips s A r 2 v16 (IntType c) (VInt16 v16)
      \<and> roundTrips s A r 2 v16 (UcharType c) (VUint16 v16) \<and> roundTrips s A r 2 v16 (UintType c) (VUint16 v16)
      \<and> roundTrips s A r 2 v16 (AddrType c) (VUint16 v16))
   \<and> (ByteSize c = 4 \<longrightarrow>
        roundTrips s A r 4 v32 (CharType c) (VInt32 v32) \<and> roundTrips s A r 4 v32 (IntType c) (VInt32 v32)
      \<and> roundTrips s A r 4 v32 (UcharType c) (VUint32 v32) \<and> roundTrips s A r 4 v32 (UintType c) (VUint32 v32)
      \<and> roundTrips s A r 4 v32 (AddrType c) (VUint32 v32))
   \<and> (ByteSize c = 8 \<longrightarrow>
        roundTrips s A r 8 v64 (CharType c) (VInt64 v64) \<and> roundTrips s A r 8 v64 (IntType c) (VInt64 v64)
      \<and> roundTrips s A r 8 v64 (UcharType c) (VUint64 v64) \<and> roundTrips s A r 8 v64 (UintType c) (VUint64 v64)
      \<and> roundTrips s A r 8 v64 (AddrType c) (VUint64 v64))"
  by (intro conjI impI roundtrip_1 roundtrip_2 roundtrip_4 roundtrip_8)

theorem int_roundtrip_witness:
  "Server_value (withEncoded (exServer zeroMem) 0x1000 1 (0xFE :: 8 word)) (IntType (ct 1 1)) 0x1000 []
     = (Inr (VInt8 0xFE), [(0x1000, 1)])
   \<and> Server_value (withEncoded (beServer zeroMem) 0x1000 2 (0x8001 :: 16 word)) (UintType (ct 2 2)) 0x1000 []
     = (Inr (VUint16 0x8001), [(0x1000, 2)])
   \<and> Server_value (withEncoded (exServer Map.empty) 0x1000 4 (0xFFFFFFFE :: 32 word)) (IntType (ct 4 3)) 0x1000 []
     = (Inr (VInt32 0xFFFFFFFE), [(0x1000, 4)])
   \<and> Server_value (withEncoded (beServer Map.empty) 0x1000 8 (0x0102030405060708 :: 64 word)) (UintType (ct 8 4)) 0x1000 []
     = (Inr (VUint64 0x0102030405060708), [(0x1000, 8)])"
  using int_roundtrip [of "ct 1 1" "exServer zeroMem" "0x1000" "[]" "0xFE"]
    int_roundtrip [of "ct 2 2" "beServer zeroMem" "0x1000" "[]" _ "0x8001"]
    int_roundtrip [of "ct 4 3" "exServer Map.empty" "0x1000" "[]" _ _ "0xFFFFFFFE"]
    int_roundtrip [of "ct 8 4" "beServer Map.empty" "0x1000" "[]" _ _ _ "0x0102030405060708"]
  by (simp add: ct_def roundTrips_def)

end
